theory Spec2Isabelle
  imports Main "HOL-Library.Sublist"
begin

section \<open>Syntax-tree nodes built by package gen\<close>

text \<open>
  Package gen composes nodes of Go's go/ast package. The node kinds that gen.go builds or
  inspects are modelled below; a nil pointer, a nil interface and a nil slice are
  \<open>None\<close>, \<open>None\<close> and \<open>[]\<close>.
\<close>

datatype token = INT_token | FLOAT | IMAG | CHAR | STRING | CONST_token | TYPE_token

datatype ident = Ident (ident_Name: string)

datatype basic_lit = BasicLit (Kind: token) (Value: string)

text \<open>
  \<open>ast.Expr\<close> is an interface; \<open>EIdent\<close> is the dynamic type \<open>*ast.Ident\<close>,
  \<open>ELit\<close> is \<open>*ast.BasicLit\<close>, the other constructors are type expressions the
  expression parser can return.
\<close>

datatype expr =
    EIdent ident
  | ELit basic_lit
  | StarExpr expr
  | SelectorExpr expr ident
  | ArrayType "expr option" expr

datatype field = Field (Names: "ident list") (Type: "expr option") (Tag: "basic_lit option")

datatype field_list = FieldList_node (List: "field list")

datatype struct_type = StructType (Fields: field_list)

datatype value_spec =
  ValueSpec (spec_Names: "ident list") (spec_Type: "ident option") (spec_Values: "expr list")

text \<open>\<open>Lparen\<close> is a \<open>token.Pos\<close>; position 0 is \<open>token.NoPos\<close>, the invalid position.\<close>

datatype gen_decl = GenDecl (Tok: token) (Lparen: nat) (Specs: "value_spec list")

datatype stmt = ExprStmt expr | ReturnStmt "expr list"

datatype block_stmt = BlockStmt (Stmts: "stmt list")

datatype comment = Comment (Text: string)

datatype comment_group = CommentGroup (Comments: "comment list")

datatype func_type = FuncType (Params: "field_list option") (Results: "field_list option")

datatype func_decl =
  FuncDecl (Doc: "comment_group option") (Recv: "field_list option") (Name: ident)
    (Func_Type: func_type) (Body: "block_stmt option")

datatype decl = FuncDecl_node func_decl | GenDecl_node gen_decl

text \<open>A run-time panic: the message of an explicit \<open>panic(...)\<close>, a failed type
  assertion \<open>x.(T)\<close>, or a nil pointer dereference.\<close>

datatype panic = Panic string | InterfaceConversion | NilPointerDereference

text \<open>
  The errors gen.go returns, one constructor per \<open>errors.New\<close> / \<open>fmt.Errorf\<close> call
  and one for an error handed through from go/parser (its diagnostic text).
\<close>

datatype error =
    FunctionNameUnset
  | FunctionBodyUnset
  | EmptyFieldListItem string
  | CouldNotParseType string string
  | CouldNotParseBody string error
  | NoFunctionFound string
  | ParserError string

text \<open>
  The text of each error (\<open>err.Error()\<close>). \<open>quote\<close> is \<open>strconv.Quote\<close>, which the
  verb \<open>%q\<close> applies. The format of the body-unset error has a verb \<open>%s\<close> and no
  argument, which \<open>fmt\<close> renders as \<open>%!s(MISSING)\<close>.
\<close>

fun Error :: "(string \<Rightarrow> string) \<Rightarrow> error \<Rightarrow> string" where
  "Error quote FunctionNameUnset = ''function name unset''"
| "Error quote FunctionBodyUnset = ''function body for %!s(MISSING) unset''"
| "Error quote (EmptyFieldListItem s) = ''empty field list item '' @ quote s"
| "Error quote (CouldNotParseType s d) = ''could not parse type in '' @ quote s @ '': '' @ d"
| "Error quote (CouldNotParseBody n e) =
     ''could not parse function body of '' @ n @ '': '' @ Error quote e"
| "Error quote (NoFunctionFound buf) = ''parse error: no function found in '' @ quote buf"
| "Error quote (ParserError d) = d"

section \<open>Standard-library functions used by gen.go\<close>

text \<open>\<open>strconv.Itoa\<close> on a length (never negative).\<close>

fun Itoa :: "nat \<Rightarrow> string" where
  "Itoa n = (if n < 10 then [''0123456789'' ! n]
             else Itoa (n div 10) @ [''0123456789'' ! (n mod 10)])"

declare Itoa.simps [simp del]

text \<open>\<open>strings.Contains(s, substr)\<close>: \<open>substr\<close> occurs in \<open>s\<close> as a contiguous run.\<close>

definition Contains :: "string \<Rightarrow> string \<Rightarrow> bool" where
  "Contains s substr = sublist substr s"

text \<open>
  \<open>strings.SplitN(s, sep, n)\<close> for a one-character separator and \<open>n \<ge> 0\<close>: no parts
  for \<open>n = 0\<close>; otherwise \<open>s\<close> is cut at the first \<open>n - 1\<close> separators and the rest of
  the text is the last part, so the result is never empty.
\<close>

fun SplitN :: "string \<Rightarrow> char \<Rightarrow> nat \<Rightarrow> string list" where
  "SplitN s sep 0 = []"
| "SplitN s sep (Suc n) =
     (if n = 0 \<or> sep \<notin> set s then [s]
      else takeWhile (\<lambda>c. c \<noteq> sep) s # SplitN (tl (dropWhile (\<lambda>c. c \<noteq> sep) s)) sep n)"

text \<open>\<open>strings.Split(s, sep)\<close> for a one-character separator: \<open>s\<close> cut at every separator.\<close>

fun Split_from :: "char \<Rightarrow> string \<Rightarrow> string \<Rightarrow> string list" where
  "Split_from sep cur [] = [cur]"
| "Split_from sep cur (c # s) =
     (if c = sep then cur # Split_from sep [] s else Split_from sep (cur @ [c]) s)"

definition Split :: "string \<Rightarrow> char \<Rightarrow> string list" where
  "Split s sep = Split_from sep [] s"

text \<open>
  A rune is a Unicode code point, an \<open>int32\<close> in Go. \<open>DecodeRune\<close> is
  \<open>utf8.DecodeRuneInString\<close>: the first rune of a text and the number of bytes it
  takes; a byte that starts no valid encoding gives \<open>RuneError\<close> and width 1.
  \<open>decoded s\<close> is what \<open>for _, c := range s\<close> goes through, \<open>runes s\<close> the
  characters of \<open>s\<close>. \<open>EncodeRune\<close> is \<open>utf8.EncodeRune\<close>, which writes
  \<open>RuneError\<close> for a surrogate or a value out of range.
\<close>

type_synonym rune = int

definition RuneError :: rune where
  "RuneError = 0xFFFD"

definition DecodeRune :: "string \<Rightarrow> rune \<times> nat" where
  "DecodeRune s =
     (case s of
        [] \<Rightarrow> (RuneError, 0)
      | c0 # t \<Rightarrow>
          (let b0 = (of_char c0 :: int) in
           if b0 < 0x80 then (b0, 1)
           else if b0 < 0xC2 \<or> 0xF4 < b0 then (RuneError, 1)
           else
             (let sz = (if b0 < 0xE0 then 2 else if b0 < 0xF0 then 3 else (4::nat));
                  lo = (if b0 = 0xE0 then 0xA0 else if b0 = 0xF0 then 0x90 else (0x80::int));
                  hi = (if b0 = 0xED then 0x9F else if b0 = 0xF4 then 0x8F else (0xBF::int))
              in if length s < sz then (RuneError, 1)
                 else
                   (let b1 = (of_char (s ! 1) :: int) in
                    if b1 < lo \<or> hi < b1 then (RuneError, 1)
                    else if sz \<le> 2 then (b0 mod 32 * 64 + b1 mod 64, 2)
                    else
                      (let b2 = (of_char (s ! 2) :: int) in
                       if b2 < 0x80 \<or> 0xBF < b2 then (RuneError, 1)
                       else if sz \<le> 3
                       then (b0 mod 16 * 4096 + b1 mod 64 * 64 + b2 mod 64, 3)
                       else
                         (let b3 = (of_char (s ! 3) :: int) in
                          if b3 < 0x80 \<or> 0xBF < b3 then (RuneError, 1)
                          else (b0 mod 8 * 262144 + b1 mod 64 * 4096 + b2 mod 64 * 64
                                  + b3 mod 64, 4)))))))"

fun decoded :: "string \<Rightarrow> (rune \<times> nat) list" where
  "decoded [] = []"
| "decoded (c # s) = DecodeRune (c # s) # decoded (drop (snd (DecodeRune (c # s)) - 1) s)"

definition runes :: "string \<Rightarrow> rune list" where
  "runes s = map fst (decoded s)"

definition EncodeRune3 :: "rune \<Rightarrow> string" where
  "EncodeRune3 r =
     [char_of (0xE0 + r div 4096), char_of (0x80 + r div 64 mod 64), char_of (0x80 + r mod 64)]"

definition EncodeRune :: "rune \<Rightarrow> string" where
  "EncodeRune r =
     (if r < 0 then EncodeRune3 RuneError
      else if r \<le> 0x7F then [char_of r]
      else if r \<le> 0x7FF then [char_of (0xC0 + r div 64), char_of (0x80 + r mod 64)]
      else if 0x10FFFF < r \<or> (0xD800 \<le> r \<and> r \<le> 0xDFFF) then EncodeRune3 RuneError
      else if r \<le> 0xFFFF then EncodeRune3 r
      else [char_of (0xF0 + r div 262144), char_of (0x80 + r div 4096 mod 64),
            char_of (0x80 + r div 64 mod 64), char_of (0x80 + r mod 64)])"

text \<open>
  The tables of package unicode, for the runes beyond ASCII: \<open>unicode.IsLetter\<close>,
  \<open>unicode.IsDigit\<close>, \<open>unicode.IsSpace\<close> and the title-case mapping of
  \<open>unicode.ToTitle\<close>. On ASCII the library does not consult them, and neither do
  \<open>isSeparator\<close> and \<open>ToTitle\<close> below.
\<close>

datatype unicode =
  Unicode (IsLetter: "rune \<Rightarrow> bool") (IsDigit: "rune \<Rightarrow> bool") (IsSpace: "rune \<Rightarrow> bool")
    (ToTitle_table: "rune \<Rightarrow> rune")

text \<open>
  \<open>strings.Title\<close>. \<open>isSeparator\<close>: ASCII letters, digits and the underscore are
  not separators and every other ASCII character is; beyond ASCII letters and digits are
  not separators, and of the rest the spaces are. \<open>ToTitle\<close> maps \<open>a\<close>..\<open>z\<close> to
  \<open>A\<close>..\<open>Z\<close>, leaves the other ASCII characters alone and follows the table
  beyond ASCII. \<open>Title\<close> maps each character that follows a separator (the text
  starts as if after a space) through \<open>ToTitle\<close>; \<open>strings.Map\<close> goes through the
  runes of the text, drops a character mapped to a negative value and writes the others
  with \<open>EncodeRune\<close>.
\<close>

definition isSeparator :: "unicode \<Rightarrow> rune \<Rightarrow> bool" where
  "isSeparator U r =
     (if r \<le> 0x7F
      then (if 48 \<le> r \<and> r \<le> 57 then False
            else if 97 \<le> r \<and> r \<le> 122 then False
            else if 65 \<le> r \<and> r \<le> 90 then False
            else if r = 95 then False
            else True)
      else if IsLetter U r \<or> IsDigit U r then False
      else IsSpace U r)"

definition ToTitle :: "unicode \<Rightarrow> rune \<Rightarrow> rune" where
  "ToTitle U r =
     (if r \<le> 0x7F then (if 97 \<le> r \<and> r \<le> 122 then r - 32 else r)
      else ToTitle_table U r)"

fun Title_from :: "unicode \<Rightarrow> rune \<Rightarrow> rune list \<Rightarrow> rune list" where
  "Title_from U prev [] = []"
| "Title_from U prev (r # s) =
     (if isSeparator U prev then ToTitle U r else r) # Title_from U r s"

definition Title_runes :: "unicode \<Rightarrow> string \<Rightarrow> rune list" where
  "Title_runes U s = Title_from U 32 (runes s)"

definition Title :: "unicode \<Rightarrow> string \<Rightarrow> string" where
  "Title U s = concat (map EncodeRune (filter (\<lambda>r. 0 \<le> r) (Title_runes U s)))"

text \<open>
  The value of a raw string literal (Go language specification, "String literals"): the
  text between the back quotes, which may hold any character except a back quote, with
  the carriage returns discarded. The scanner refuses a source text that holds a NUL
  character, a byte that is not valid UTF-8 or a byte order mark
  (\<open>source_text_ok\<close>). \<open>literal_value\<close> is the value of a string literal:
  \<open>interpreted\<close> stands for the evaluation of a double-quoted literal.
\<close>

definition source_text_ok :: "string \<Rightarrow> bool" where
  "source_text_ok s =
     list_all (\<lambda>(r, w). r \<noteq> 0 \<and> r \<noteq> 0xFEFF \<and> \<not> (r = RuneError \<and> w = 1)) (decoded s)"

definition raw_string_value :: "string \<Rightarrow> string option" where
  "raw_string_value lit =
     (if 2 \<le> length lit \<and> hd lit = CHR 0x60 \<and> last lit = CHR 0x60
         \<and> CHR 0x60 \<notin> set (butlast (tl lit)) \<and> source_text_ok (butlast (tl lit))
      then Some (filter (\<lambda>c. c \<noteq> CHR 0x0D) (butlast (tl lit)))
      else None)"

definition literal_value :: "(string \<Rightarrow> string option) \<Rightarrow> string \<Rightarrow> string option" where
  "literal_value interpreted lit =
     (case lit of [] \<Rightarrow> None
      | c # _ \<Rightarrow> if c = CHR 0x60 then raw_string_value lit else interpreted lit)"

section \<open>Struct\<close>

text \<open>
  \<open>Struct\<close> (gen.go, lines 38-58). One pass of the loop reads a (name, type, tag)
  triple; \<open>name.(*ast.Ident)\<close> and \<open>tag.(*ast.BasicLit)\<close> are type assertions, which
  panic on any other dynamic type.
\<close>

definition struct_field :: "expr option \<Rightarrow> expr option \<Rightarrow> expr option \<Rightarrow> panic + field" where
  "struct_field name typ tag =
     (case (case name of
              None \<Rightarrow> Inr []
            | Some (EIdent i) \<Rightarrow> Inr [i]
            | Some _ \<Rightarrow> Inl InterfaceConversion) of
        Inl p \<Rightarrow> Inl p
      | Inr names \<Rightarrow>
          (case tag of
             None \<Rightarrow> Inr (Field names typ None)
           | Some (ELit b) \<Rightarrow> Inr (Field names typ (Some b))
           | Some _ \<Rightarrow> Inl InterfaceConversion))"

fun Struct_loop :: "expr option list \<Rightarrow> field list \<Rightarrow> panic + field list" where
  "Struct_loop (name # typ # tag # rest) fields =
     (case struct_field name typ tag of
        Inl p \<Rightarrow> Inl p
      | Inr f \<Rightarrow> Struct_loop rest (fields @ [f]))"
| "Struct_loop rest fields = Inr fields"

definition Struct :: "expr option list \<Rightarrow> panic + struct_type" where
  "Struct args =
     (if length args mod 3 \<noteq> 0
      then Inl (Panic (''Number of args to FieldList must be a multiple of 3, got ''
                       @ Itoa (length args)))
      else (case Struct_loop args [] of
              Inl p \<Rightarrow> Inl p
            | Inr fields \<Rightarrow> Inr (StructType (FieldList_node fields))))"

section \<open>FieldList\<close>

text \<open>
  \<open>FieldList\<close> (gen.go, lines 62-83). \<open>parseExpr\<close> is \<open>parser.ParseExpr\<close>: the
  diagnostic on the left, the expression on the right.
\<close>

fun FieldList_loop ::
  "(string \<Rightarrow> string + expr) \<Rightarrow> string list \<Rightarrow> field list \<Rightarrow> error + field_list" where
  "FieldList_loop parseExpr [] result = Inr (FieldList_node result)"
| "FieldList_loop parseExpr (s # fields) result =
     (let parts = SplitN s (CHR '' '') 2 in
      if length parts = 0 then Inl (EmptyFieldListItem s)
      else (case parseExpr (last parts) of
              Inl err \<Rightarrow> Inl (CouldNotParseType s err)
            | Inr typeExpr \<Rightarrow>
                FieldList_loop parseExpr fields
                  (result @ [Field (if length parts > 1 then [Ident (hd parts)] else [])
                                   (Some typeExpr) None])))"

definition FieldList :: "(string \<Rightarrow> string + expr) \<Rightarrow> string list \<Rightarrow> error + field_list" where
  "FieldList parseExpr fields = FieldList_loop parseExpr fields []"

section \<open>String and Public\<close>

text \<open>\<open>String\<close> (lines 87-92), with \<open>quote\<close> for \<open>strconv.Quote\<close>, and \<open>Public\<close>
  (lines 96-98), with the tables of package unicode that \<open>strings.Title\<close> consults.\<close>

definition String :: "(string \<Rightarrow> string) \<Rightarrow> string \<Rightarrow> basic_lit" where
  "String quote s =
     (if Contains s [CHR 0x22] \<and> \<not> Contains s [CHR 0x60]
      then BasicLit STRING ([CHR 0x60] @ s @ [CHR 0x60])
      else BasicLit STRING (quote s))"

definition Public :: "unicode \<Rightarrow> string \<Rightarrow> ident" where
  "Public U name = Ident (Title U name)"

section \<open>constDecl\<close>

text \<open>\<open>constDecl\<close> (lines 100-129): one \<open>ValueSpec\<close> per (name, type, value) triple.\<close>

definition const_spec :: "(string \<Rightarrow> string) \<Rightarrow> token \<Rightarrow> string \<Rightarrow> string \<Rightarrow> string \<Rightarrow> value_spec" where
  "const_spec quote kind name typ val =
     ValueSpec [Ident name] (if typ \<noteq> [] then Some (Ident typ) else None)
       [ELit (BasicLit kind (if kind = STRING then quote val else val))]"

fun constDecl_loop ::
  "(string \<Rightarrow> string) \<Rightarrow> token \<Rightarrow> string list \<Rightarrow> value_spec list \<Rightarrow> value_spec list" where
  "constDecl_loop quote kind (name # typ # val # rest) specs =
     constDecl_loop quote kind rest (specs @ [const_spec quote kind name typ val])"
| "constDecl_loop quote kind rest specs = specs"

definition constDecl :: "(string \<Rightarrow> string) \<Rightarrow> token \<Rightarrow> string list \<Rightarrow> panic + gen_decl" where
  "constDecl quote kind args =
     (if length args mod 3 \<noteq> 0
      then Inl (Panic ''Number of values passed to ConstString must be a multiple of 3'')
      else (let specs = constDecl_loop quote kind args [] in
            Inr (GenDecl CONST_token (if length specs > 1 then 1 else 0) specs)))"

text \<open>Whether go/printer renders a declaration in the grouped, parenthesized form: its
  test is \<open>d.Lparen.IsValid() || len(d.Specs) != 1\<close>, so a declaration with no spec is
  printed as an empty group.\<close>

definition grouped :: "gen_decl \<Rightarrow> bool" where
  "grouped d = (Lparen d \<noteq> 0 \<or> length (Specs d) \<noteq> 1)"

section \<open>parseBlock\<close>

text \<open>
  \<open>parseBlock\<close> (lines 259-273). \<open>block_source s\<close> is the text written to the buffer;
  \<open>parseFile\<close> is \<open>parser.ParseFile\<close>, giving the diagnostic or the declarations of the
  file.
\<close>

definition block_source :: "string \<Rightarrow> string" where
  "block_source s =
     ''package tmp'' @ [CHR 0x0A] @ ''func _block() {'' @ [CHR 0x0A] @ s @ [CHR 0x0A] @ ''}''"

fun first_func :: "decl list \<Rightarrow> func_decl option" where
  "first_func [] = None"
| "first_func (FuncDecl_node d # decls) = Some d"
| "first_func (GenDecl_node g # decls) = first_func decls"

definition parseBlock ::
  "(string \<Rightarrow> string + decl list) \<Rightarrow> string \<Rightarrow> error + block_stmt option" where
  "parseBlock parseFile s =
     (case parseFile (block_source s) of
        Inl err \<Rightarrow> Inl (ParserError err)
      | Inr decls \<Rightarrow>
          (case first_func decls of
             Some d \<Rightarrow> Inr (Body d)
           | None \<Rightarrow> Inl (NoFunctionFound (block_source s))))"

section \<open>The Function builder\<close>

record Function =
  name :: string
  receiver :: string
  godoc :: string
  args :: "string list"
  returns :: "string list"
  body :: string

definition Func :: "string \<Rightarrow> Function" where
  "Func n = \<lparr>name = n, receiver = [], godoc = [], args = [], returns = [], body = []\<rparr>"

text \<open>The setters. \<open>Body\<close> takes the text that \<open>fmt.Sprintf(format, v...)\<close> gives.\<close>

definition Body_set :: "string \<Rightarrow> Function \<Rightarrow> Function" where
  "Body_set text fn = fn\<lparr>body := text\<rparr>"

definition Returns :: "string list \<Rightarrow> Function \<Rightarrow> Function" where
  "Returns values fn = fn\<lparr>returns := values\<rparr>"

definition Comment_set :: "string \<Rightarrow> Function \<Rightarrow> Function" where
  "Comment_set s fn = fn\<lparr>godoc := s\<rparr>"

definition Args :: "string list \<Rightarrow> Function \<Rightarrow> Function" where
  "Args as fn = fn\<lparr>args := as\<rparr>"

definition Receiver :: "string \<Rightarrow> Function \<Rightarrow> Function" where
  "Receiver r fn = fn\<lparr>receiver := r\<rparr>"

text \<open>
  The closure \<open>fl\<close> of \<open>Decl\<close> (lines 196-202). It reads and writes the variable
  \<open>err\<close> of \<open>Decl\<close>, passed in and returned here: the group is skipped when it is
  empty, when its first descriptor is empty, or when an error is already recorded.
\<close>

definition fl ::
  "(string \<Rightarrow> string + expr) \<Rightarrow> error option \<Rightarrow> string list \<Rightarrow> field_list option \<times> error option" where
  "fl parseExpr err as =
     (if length as = 0 \<or> length (hd as) = 0 \<or> err \<noteq> None then (None, err)
      else (case FieldList parseExpr as of
              Inl e \<Rightarrow> (None, Some e)
            | Inr list \<Rightarrow> (Some list, None)))"

text \<open>\<open>Decl\<close> (lines 179-223).\<close>

definition Decl ::
  "(string \<Rightarrow> string + expr) \<Rightarrow> (string \<Rightarrow> string + decl list) \<Rightarrow> Function \<Rightarrow> error + func_decl" where
  "Decl parseExpr parseFile fn =
     (if name fn = [] then Inl FunctionNameUnset
      else if length (body fn) = 0 then Inl FunctionBodyUnset
      else
        (let comments = (if godoc fn \<noteq> []
                         then Some (CommentGroup (map Comment (Split (godoc fn) (CHR 0x0A))))
                         else None);
             (as, err1) = fl parseExpr None (args fn);
             (rs, err2) = fl parseExpr err1 (returns fn);
             (rc, err3) = fl parseExpr err2 [receiver fn]
         in (case err3 of
               Some e \<Rightarrow> Inl e
             | None \<Rightarrow>
                 (case parseBlock parseFile (body fn) of
                    Inl e \<Rightarrow> Inl (CouldNotParseBody (name fn) e)
                  | Inr b \<Rightarrow>
                      Inr (FuncDecl comments rc (Ident (name fn)) (FuncType as rs) b)))))"

section \<open>TagKey\<close>

text \<open>
  \<open>TagKey\<close> (gen.go, lines 285-290). \<open>get\<close> stands for
  \<open>reflect.StructTag(v).Get(key)\<close> of the standard library. The first branch returns
  the empty string when the tag is present; otherwise \<open>field.Tag.Value\<close> reads through
  the nil tag.
\<close>

definition TagKey :: "(string \<Rightarrow> string \<Rightarrow> string) \<Rightarrow> field \<Rightarrow> string \<Rightarrow> panic + string" where
  "TagKey get field key =
     (if Tag field \<noteq> None then Inr []
      else (case Tag field of
              None \<Rightarrow> Inl NilPointerDereference
            | Some t \<Rightarrow> Inr (get (Value t) key)))"

section \<open>Auxiliary definitions for the statements\<close>

text \<open>
  The documented contract of \<open>Struct\<close>: a name argument is nil or an \<open>*ast.Ident\<close>, a
  tag argument is nil or an \<open>*ast.BasicLit\<close>. \<open>triple_ok xs fs i\<close>: field \<open>i\<close> of
  \<open>fs\<close> carries the name, type and tag of the \<open>i\<close>-th triple of \<open>xs\<close>.
\<close>

definition name_ok :: "expr option \<Rightarrow> bool" where
  "name_ok e = (case e of None \<Rightarrow> True | Some (EIdent i) \<Rightarrow> True | Some _ \<Rightarrow> False)"

definition tag_ok :: "expr option \<Rightarrow> bool" where
  "tag_ok e = (case e of None \<Rightarrow> True | Some (ELit b) \<Rightarrow> True | Some _ \<Rightarrow> False)"

definition triple_ok :: "expr option list \<Rightarrow> field list \<Rightarrow> nat \<Rightarrow> bool" where
  "triple_ok xs fs i =
     (Type (fs ! i) = xs ! (3 * i + 1)
      \<and> map EIdent (Names (fs ! i)) = (case xs ! (3 * i) of None \<Rightarrow> [] | Some e \<Rightarrow> [e])
      \<and> map_option ELit (Tag (fs ! i)) = xs ! (3 * i + 2))"

text \<open>
  Two small stand-ins for go/parser, used to run the builders on concrete inputs: an
  expression parser that accepts only \<open>int\<close>, and a file parser that accepts only the
  wrapped body \<open>return\<close>.
\<close>

definition example_parseExpr :: "string \<Rightarrow> string + expr" where
  "example_parseExpr s =
     (if s = ''int'' then Inr (EIdent (Ident ''int'')) else Inl ''1:1: expected operand'')"

definition example_parseFile :: "string \<Rightarrow> string + decl list" where
  "example_parseFile s =
     (if s = block_source ''return''
      then Inr [FuncDecl_node (FuncDecl None None (Ident ''_block'')
                  (FuncType (Some (FieldList_node [])) None) (Some (BlockStmt [ReturnStmt []])))]
      else Inl ''1:1: expected declaration'')"

text \<open>
  A small stand-in for the tables of package unicode: of the characters beyond ASCII it
  knows the letters U+00E9 and U+00C9 (e with acute, small and capital), the first
  title-cased to the second, and the no-break space U+00A0.
\<close>

definition example_unicode :: unicode where
  "example_unicode =
     Unicode (\<lambda>r. r = 0xE9 \<or> r = 0xC9) (\<lambda>r. False) (\<lambda>r. r = 0xA0)
       (\<lambda>r. if r = 0xE9 then 0xC9 else r)"

section \<open>Properties of Struct\<close>

lemma struct_field_ok:
  "name_ok n \<Longrightarrow> tag_ok t \<Longrightarrow>
     \<exists>f. struct_field n ty t = Inr f \<and> Type f = ty
        \<and> map EIdent (Names f) = (case n of None \<Rightarrow> [] | Some e \<Rightarrow> [e])
        \<and> map_option ELit (Tag f) = t"
  by (auto simp: name_ok_def tag_ok_def struct_field_def split: option.splits expr.splits)

lemma Struct_loop_ok:
  "length xs mod 3 = 0 \<Longrightarrow>
   (\<forall>i<length xs div 3. name_ok (xs ! (3 * i)) \<and> tag_ok (xs ! (3 * i + 2))) \<Longrightarrow>
   \<exists>fs. Struct_loop xs acc = Inr (acc @ fs) \<and> length fs = length xs div 3
        \<and> (\<forall>i<length xs div 3. triple_ok xs fs i)"
proof (induction xs acc rule: Struct_loop.induct)
  case (1 n ty t rest acc)
  have "0 < length (n # ty # t # rest) div 3" by simp
  with "1.prems"(2)
  have "name_ok ((n # ty # t # rest) ! (3 * 0)) \<and> tag_ok ((n # ty # t # rest) ! (3 * 0 + 2))"
    by blast
  then have ok0: "name_ok n" "tag_ok t" by simp_all
  then obtain f where f: "struct_field n ty t = Inr f" "Type f = ty"
      "map EIdent (Names f) = (case n of None \<Rightarrow> [] | Some e \<Rightarrow> [e])" "map_option ELit (Tag f) = t"
    using struct_field_ok by blast
  have len: "length (n # ty # t # rest) div 3 = Suc (length rest div 3)" by simp
  have m: "length rest mod 3 = 0" using "1.prems"(1) by simp
  have r: "\<forall>i<length rest div 3. name_ok (rest ! (3 * i)) \<and> tag_ok (rest ! (3 * i + 2))"
  proof (intro allI impI)
    fix i assume "i < length rest div 3"
    then have "Suc i < length (n # ty # t # rest) div 3" by simp
    with "1.prems"(2) have "name_ok ((n # ty # t # rest) ! (3 * Suc i)) \<and> tag_ok ((n # ty # t # rest) ! (3 * Suc i + 2))"
      by blast
    then show "name_ok (rest ! (3 * i)) \<and> tag_ok (rest ! (3 * i + 2))"
      by (simp add: numeral_3_eq_3)
  qed
  from "1.IH" [OF f(1) m r] obtain fs where fs:
    "Struct_loop rest (acc @ [f]) = Inr ((acc @ [f]) @ fs)" "length fs = length rest div 3"
    "\<forall>i<length rest div 3. triple_ok rest fs i" by blast
  have "\<forall>i<length (n # ty # t # rest) div 3. triple_ok (n # ty # t # rest) (f # fs) i"
  proof (intro allI impI)
    fix i assume i: "i < length (n # ty # t # rest) div 3"
    show "triple_ok (n # ty # t # rest) (f # fs) i"
    proof (cases i)
      case 0
      with f show ?thesis by (simp add: triple_ok_def)
    next
      case (Suc j)
      with i have "j < length rest div 3" by simp
      with fs(3) have "triple_ok rest fs j" by blast
      with Suc show ?thesis by (simp add: triple_ok_def numeral_3_eq_3)
    qed
  qed
  with f fs len show ?case
    by (intro exI [of _ "f # fs"]) simp
qed simp_all

text \<open>
  Claim C7, as the code has it: an argument list whose length is not a multiple of 3
  panics with the message that carries the length; an argument list of \<open>3 * k\<close>
  arguments whose names are nil or identifiers and whose tags are nil or basic literals
  gives a struct of exactly \<open>k\<close> fields, field \<open>i\<close> built from the \<open>i\<close>-th triple.
\<close>

theorem Struct_triples:
  "(length xs mod 3 \<noteq> 0 \<longrightarrow>
      Struct xs = Inl (Panic (''Number of args to FieldList must be a multiple of 3, got ''
                              @ Itoa (length xs))))
   \<and> (length xs mod 3 = 0
        \<and> (\<forall>i<length xs div 3. name_ok (xs ! (3 * i)) \<and> tag_ok (xs ! (3 * i + 2))) \<longrightarrow>
      (\<exists>fs. Struct xs = Inr (StructType (FieldList_node fs)) \<and> length fs = length xs div 3
         \<and> (\<forall>i<length xs div 3. triple_ok xs fs i)))"
proof (intro conjI impI)
  assume "length xs mod 3 \<noteq> 0"
  then show "Struct xs = Inl (Panic (''Number of args to FieldList must be a multiple of 3, got ''
                              @ Itoa (length xs)))"
    by (simp add: Struct_def)
next
  assume a: "length xs mod 3 = 0
        \<and> (\<forall>i<length xs div 3. name_ok (xs ! (3 * i)) \<and> tag_ok (xs ! (3 * i + 2)))"
  then obtain fs where "Struct_loop xs [] = Inr ([] @ fs)" "length fs = length xs div 3"
      "\<forall>i<length xs div 3. triple_ok xs fs i"
    using Struct_loop_ok [of xs "[]"] by auto
  with a show "\<exists>fs. Struct xs = Inr (StructType (FieldList_node fs)) \<and> length fs = length xs div 3
         \<and> (\<forall>i<length xs div 3. triple_ok xs fs i)"
    by (simp add: Struct_def)
qed

theorem Struct_triples_witness:
  "length [Some (EIdent (Ident ''A'')), Some (EIdent (Ident ''int''))] mod 3 \<noteq> 0
   \<and> Struct [Some (EIdent (Ident ''A'')), Some (EIdent (Ident ''int''))]
       = Inl (Panic ''Number of args to FieldList must be a multiple of 3, got 2'')
   \<and> length [Some (EIdent (Ident ''A'')), Some (EIdent (Ident ''int'')), None,
              None, Some (StarExpr (EIdent (Ident ''T''))), Some (ELit (BasicLit STRING ''`x`''))] mod 3 = 0
   \<and> Struct [Some (EIdent (Ident ''A'')), Some (EIdent (Ident ''int'')), None,
              None, Some (StarExpr (EIdent (Ident ''T''))), Some (ELit (BasicLit STRING ''`x`''))]
       = Inr (StructType (FieldList_node
           [Field [Ident ''A''] (Some (EIdent (Ident ''int''))) None,
            Field [] (Some (StarExpr (EIdent (Ident ''T'')))) (Some (BasicLit STRING ''`x`''))]))"
proof -
  let ?xs2 = "[Some (EIdent (Ident ''A'')), Some (EIdent (Ident ''int''))]"
  let ?xs6 = "[Some (EIdent (Ident ''A'')), Some (EIdent (Ident ''int'')), None,
              None, Some (StarExpr (EIdent (Ident ''T''))), Some (ELit (BasicLit STRING ''`x`''))]"
  have m2: "length ?xs2 mod 3 \<noteq> 0" by simp
  with Struct_triples [of ?xs2]
  have p: "Struct ?xs2 = Inl (Panic (''Number of args to FieldList must be a multiple of 3, got ''
                                      @ Itoa (length ?xs2)))"
    by blast
  have i: "Itoa (length ?xs2) = ''2''" by (simp add: Itoa.simps)
  have m6: "length ?xs6 mod 3 = 0" by simp
  have "length ?xs6 div 3 = 2" by simp
  then have ok: "\<forall>i<length ?xs6 div 3. name_ok (?xs6 ! (3 * i)) \<and> tag_ok (?xs6 ! (3 * i + 2))"
    by (simp add: name_ok_def tag_ok_def less_Suc_eq numeral_2_eq_2)
  from Struct_triples [of ?xs6] m6 ok
  obtain fs where fs: "Struct ?xs6 = Inr (StructType (FieldList_node fs))" "length fs = length ?xs6 div 3"
    by blast
  have e: "Struct ?xs6 = Inr (StructType (FieldList_node
           [Field [Ident ''A''] (Some (EIdent (Ident ''int''))) None,
            Field [] (Some (StarExpr (EIdent (Ident ''T'')))) (Some (BasicLit STRING ''`x`''))]))"
    by (simp add: Struct_def struct_field_def)
  from m2 p i m6 e show ?thesis by simp
qed

text \<open>
  The claim as stated (every argument list whose length is a multiple of 3 gives a
  struct) fails where a name argument is an expression other than an identifier: the
  type assertion of line 47 panics.
\<close>

theorem Struct_name_not_ident:
  "length [Some (ELit (BasicLit STRING ''x'')), Some (EIdent (Ident ''int'')), None] mod 3 = 0
   \<and> Struct [Some (ELit (BasicLit STRING ''x'')), Some (EIdent (Ident ''int'')), None]
       = Inl InterfaceConversion"
  by (simp add: Struct_def struct_field_def)

section \<open>Properties of FieldList\<close>

lemma SplitN_2_nonempty: "SplitN s sep 2 \<noteq> []"
  by (simp add: numeral_2_eq_2)

lemma FieldList_loop_never_empty_item:
  "FieldList_loop parseExpr items result \<noteq> Inl (EmptyFieldListItem s)"
proof (induction items arbitrary: result)
  case Nil
  then show ?case by simp
next
  case (Cons a items)
  have "length (SplitN a (CHR '' '') 2) \<noteq> 0"
    using SplitN_2_nonempty by simp
  with Cons show ?case
    by (simp add: Let_def split: sum.split)
qed

text \<open>
  Claim C5 (an empty item gives the "empty field list item" error). On the code,
  \<open>SplitN\<close> with \<open>n = 2\<close> never returns an empty list, so the guard of line 66 never
  holds: for the list holding one empty item the result is whatever the expression parser
  makes of the empty text, and no list of items at all yields the error of line 67.
\<close>

theorem FieldList_empty_item_not_reported:
  "FieldList parseExpr [[]] =
     (case parseExpr [] of
        Inl d \<Rightarrow> Inl (CouldNotParseType [] d)
      | Inr e \<Rightarrow> Inr (FieldList_node [Field [] (Some e) None]))
   \<and> FieldList parseExpr items \<noteq> Inl (EmptyFieldListItem s)"
proof
  show "FieldList parseExpr [[]] =
     (case parseExpr [] of
        Inl d \<Rightarrow> Inl (CouldNotParseType [] d)
      | Inr e \<Rightarrow> Inr (FieldList_node [Field [] (Some e) None]))"
    by (simp add: FieldList_def numeral_2_eq_2 split: sum.split)
  show "FieldList parseExpr items \<noteq> Inl (EmptyFieldListItem s)"
    unfolding FieldList_def by (rule FieldList_loop_never_empty_item)
qed

section \<open>Properties of String and Public\<close>

lemma Contains_char: "Contains s [c] \<longleftrightarrow> c \<in> set s"
  unfolding Contains_def
  by (induction s) (auto simp: sublist_Cons_right prefix_Cons)

lemma String_raw:
  "Contains s [CHR 0x22] \<Longrightarrow> \<not> Contains s [CHR 0x60] \<Longrightarrow> source_text_ok s \<Longrightarrow>
     Value (String quote s) = [CHR 0x60] @ s @ [CHR 0x60]
     \<and> literal_value interpreted (Value (String quote s)) = Some (filter (\<lambda>c. c \<noteq> CHR 0x0D) s)"
  by (simp add: String_def literal_value_def raw_string_value_def Contains_char butlast_append)

lemma String_raw_without_carriage_return:
  "Contains s [CHR 0x22] \<Longrightarrow> \<not> Contains s [CHR 0x60] \<Longrightarrow> source_text_ok s \<Longrightarrow>
   CHR 0x0D \<notin> set s \<Longrightarrow>
     literal_value interpreted (Value (String quote s)) = Some s"
proof -
  assume a: "Contains s [CHR 0x22]" "\<not> Contains s [CHR 0x60]" "source_text_ok s"
    and c: "CHR 0x0D \<notin> set s"
  from c have "filter (\<lambda>c. c \<noteq> CHR 0x0D) s = s"
    by (induction s) auto
  moreover from String_raw [OF a, of quote interpreted]
  have "literal_value interpreted (Value (String quote s)) = Some (filter (\<lambda>c. c \<noteq> CHR 0x0D) s)"
    by blast
  ultimately show ?thesis by simp
qed

lemma String_quoted:
  "\<not> Contains s [CHR 0x22] \<or> Contains s [CHR 0x60] \<Longrightarrow> String quote s = BasicLit STRING (quote s)"
  by (auto simp: String_def)

lemma raw_value_example:
  "raw_string_value [CHR 0x60, CHR ''a'', CHR 0x22, CHR 0x0D, CHR 0x0A, CHR 0x60]
     = Some [CHR ''a'', CHR 0x22, CHR 0x0A]"
  by code_simp

text \<open>
  Claim C6 (the literal, when parsed, yields exactly the text). On the text
  \<open>a"\<close> followed by a carriage return and a line feed, which has a double quote and no
  back quote, \<open>String\<close> gives the raw literal around that text, and the value of that
  literal has lost the carriage return.
\<close>

theorem String_raw_drops_carriage_return:
  "String quote [CHR ''a'', CHR 0x22, CHR 0x0D, CHR 0x0A]
     = BasicLit STRING [CHR 0x60, CHR ''a'', CHR 0x22, CHR 0x0D, CHR 0x0A, CHR 0x60]
   \<and> literal_value interpreted (Value (String quote [CHR ''a'', CHR 0x22, CHR 0x0D, CHR 0x0A]))
     = Some [CHR ''a'', CHR 0x22, CHR 0x0A]"
  by (simp add: String_def Contains_def literal_value_def raw_value_example
      sublist_Cons_right prefix_Cons)

lemma Title_from_length: "length (Title_from U prev s) = length s"
  by (induction s arbitrary: prev) simp_all

lemma Title_from_nth:
  "i < length s \<Longrightarrow>
     Title_from U prev s ! i =
       (if isSeparator U (if i = 0 then prev else s ! (i - 1)) then ToTitle U (s ! i) else s ! i)"
proof (induction s arbitrary: prev i)
  case Nil
  then show ?case by simp
next
  case (Cons r s)
  show ?case
  proof (cases i)
    case 0
    then show ?thesis by simp
  next
    case (Suc j)
    with Cons.prems have "j < length s" by simp
    from Cons.IH [OF this, of r] Suc show ?thesis
      by (cases j) simp_all
  qed
qed

lemma isSeparator_space: "isSeparator U 32"
  by (simp add: isSeparator_def)

text \<open>
  Claim C4, as the code has it: \<open>Public\<close> title-cases the name. For every name, the
  identifier is spelled by as many characters as the name has; the first character and
  every character that directly follows a separator are those of the name mapped through
  \<open>ToTitle\<close>, and every other character is the one of the name. The characters of a
  text are its runes (a byte that is not valid UTF-8 counts as U+FFFD), and the
  identifier is their encoding.
\<close>

theorem Public_title_case:
  "ident_Name (Public U n)
     = concat (map EncodeRune (filter (\<lambda>r. 0 \<le> r) (Title_runes U n)))
   \<and> length (Title_runes U n) = length (runes n)
   \<and> (\<forall>i<length (runes n).
         Title_runes U n ! i =
           (if i = 0 \<or> isSeparator U (runes n ! (i - 1)) then ToTitle U (runes n ! i)
            else runes n ! i))"
  by (auto simp: Public_def Title_def Title_runes_def Title_from_length Title_from_nth
      isSeparator_space)

theorem Public_title_case_witness:
  "runes [CHR 0xC3, CHR 0xA9, CHR ''l'', CHR ''a'', CHR ''n'', CHR '' '', CHR ''g'', CHR ''_'', CHR ''o'']
     = [0xE9, 108, 97, 110, 32, 103, 95, 111]
   \<and> Title_runes example_unicode
        [CHR 0xC3, CHR 0xA9, CHR ''l'', CHR ''a'', CHR ''n'', CHR '' '', CHR ''g'', CHR ''_'', CHR ''o'']
     = [0xC9, 108, 97, 110, 32, 71, 95, 111]
   \<and> Public example_unicode
        [CHR 0xC3, CHR 0xA9, CHR ''l'', CHR ''a'', CHR ''n'', CHR '' '', CHR ''g'', CHR ''_'', CHR ''o'']
     = Ident [CHR 0xC3, CHR 0x89, CHR ''l'', CHR ''a'', CHR ''n'', CHR '' '', CHR ''G'', CHR ''_'', CHR ''o'']"
proof -
  let ?n = "[CHR 0xC3, CHR 0xA9, CHR ''l'', CHR ''a'', CHR ''n'', CHR '' '', CHR ''g'', CHR ''_'', CHR ''o'']"
  have r: "runes ?n = [0xE9, 108, 97, 110, 32, 103, 95, 111]"
    by code_simp
  have t: "Title_runes example_unicode ?n = [0xC9, 108, 97, 110, 32, 71, 95, 111]"
    by code_simp
  have e: "concat (map EncodeRune (filter (\<lambda>r. 0 \<le> r) [0xC9, 108, 97, 110, 32, 71, 95, 111]))
     = [CHR 0xC3, CHR 0x89, CHR ''l'', CHR ''a'', CHR ''n'', CHR '' '', CHR ''G'', CHR ''_'', CHR ''o'']"
    by code_simp
  from Public_title_case [of example_unicode ?n]
  have "ident_Name (Public example_unicode ?n)
     = concat (map EncodeRune (filter (\<lambda>r. 0 \<le> r) (Title_runes example_unicode ?n)))"
    by blast
  with t e have "ident_Name (Public example_unicode ?n)
     = [CHR 0xC3, CHR 0x89, CHR ''l'', CHR ''a'', CHR ''n'', CHR '' '', CHR ''G'', CHR ''_'', CHR ''o'']"
    by simp
  then have "Public example_unicode ?n
     = Ident [CHR 0xC3, CHR 0x89, CHR ''l'', CHR ''a'', CHR ''n'', CHR '' '', CHR ''G'', CHR ''_'', CHR ''o'']"
    by (cases "Public example_unicode ?n") simp
  with r t show ?thesis by simp
qed

text \<open>
  The claim as stated (the characters after the first are those of the name) fails on a
  name with a separator in it: the letter after the space is uppercased too.
\<close>

theorem Public_changes_later_character:
  "Public example_unicode ''foo bar'' = Ident ''Foo Bar''
   \<and> tl (ident_Name (Public example_unicode ''foo bar'')) \<noteq> tl ''foo bar''"
  by code_simp

lemma Title_from_no_separator:
  "\<not> isSeparator U prev \<Longrightarrow> \<forall>c\<in>set s. \<not> isSeparator U c \<Longrightarrow> Title_from U prev s = s"
  by (induction s arbitrary: prev) simp_all

section \<open>Properties of constDecl\<close>

lemma constDecl_loop_specs:
  "length xs mod 3 = 0 \<Longrightarrow>
   \<exists>ss. constDecl_loop quote kind xs acc = acc @ ss \<and> length ss = length xs div 3
        \<and> (\<forall>i<length xs div 3.
              ss ! i = const_spec quote kind (xs ! (3 * i)) (xs ! (3 * i + 1)) (xs ! (3 * i + 2)))"
proof (induction quote kind xs acc rule: constDecl_loop.induct)
  case (1 quote kind n ty v rest acc)
  have m: "length rest mod 3 = 0" using "1.prems" by simp
  from "1.IH" [OF m] obtain ss where ss:
    "constDecl_loop quote kind rest (acc @ [const_spec quote kind n ty v])
       = (acc @ [const_spec quote kind n ty v]) @ ss"
    "length ss = length rest div 3"
    "\<forall>i<length rest div 3.
        ss ! i = const_spec quote kind (rest ! (3 * i)) (rest ! (3 * i + 1)) (rest ! (3 * i + 2))"
    by blast
  let ?xs = "n # ty # v # rest"
  have "\<forall>i<length ?xs div 3.
          (const_spec quote kind n ty v # ss) ! i
            = const_spec quote kind (?xs ! (3 * i)) (?xs ! (3 * i + 1)) (?xs ! (3 * i + 2))"
  proof (intro allI impI)
    fix i assume i: "i < length ?xs div 3"
    show "(const_spec quote kind n ty v # ss) ! i
            = const_spec quote kind (?xs ! (3 * i)) (?xs ! (3 * i + 1)) (?xs ! (3 * i + 2))"
    proof (cases i)
      case 0
      then show ?thesis by simp
    next
      case (Suc j)
      with i have "j < length rest div 3" by simp
      with ss(3) have "ss ! j
          = const_spec quote kind (rest ! (3 * j)) (rest ! (3 * j + 1)) (rest ! (3 * j + 2))"
        by blast
      moreover have "3 * Suc j = Suc (Suc (Suc (3 * j)))" by simp
      ultimately show ?thesis using Suc by simp
    qed
  qed
  with ss show ?case
    by (intro exI [of _ "const_spec quote kind n ty v # ss"]) simp
qed simp_all

text \<open>
  Claim C8, as the code and the printer have it: a list of \<open>3 * k\<close> arguments gives a
  constant declaration of \<open>k\<close> specs; spec \<open>i\<close> has the name and the optional type of
  the \<open>i\<close>-th triple and one value, a literal of the given kind whose text is the quoted
  value for the string kind and the value itself for every other kind; \<open>Lparen\<close> is set
  exactly when there is more than one spec, and the declaration is rendered grouped
  exactly when the number of its specs is not one.
\<close>

theorem constDecl_specs:
  "length xs mod 3 = 0 \<Longrightarrow>
     \<exists>d. constDecl quote kind xs = Inr d
     \<and> Tok d = CONST_token
     \<and> length (Specs d) = length xs div 3
     \<and> (\<forall>i<length xs div 3.
           Specs d ! i =
             ValueSpec [Ident (xs ! (3 * i))]
               (if xs ! (3 * i + 1) \<noteq> [] then Some (Ident (xs ! (3 * i + 1))) else None)
               [ELit (BasicLit kind (if kind = STRING then quote (xs ! (3 * i + 2))
                                     else xs ! (3 * i + 2)))])
     \<and> (Lparen d \<noteq> 0 \<longleftrightarrow> 1 < length (Specs d))
     \<and> (grouped d \<longleftrightarrow> length (Specs d) \<noteq> 1)"
proof -
  assume m: "length xs mod 3 = 0"
  from constDecl_loop_specs [OF m, of quote kind "[]"] obtain ss where ss:
    "constDecl_loop quote kind xs [] = ss" "length ss = length xs div 3"
    "\<forall>i<length xs div 3.
        ss ! i = const_spec quote kind (xs ! (3 * i)) (xs ! (3 * i + 1)) (xs ! (3 * i + 2))"
    by auto
  let ?d = "GenDecl CONST_token (if 1 < length ss then 1 else 0) ss"
  from m ss(1) have d: "constDecl quote kind xs = Inr ?d"
    by (simp add: constDecl_def Let_def)
  from ss(2,3) have "Tok ?d = CONST_token \<and> length (Specs ?d) = length xs div 3
     \<and> (\<forall>i<length xs div 3.
           Specs ?d ! i =
             ValueSpec [Ident (xs ! (3 * i))]
               (if xs ! (3 * i + 1) \<noteq> [] then Some (Ident (xs ! (3 * i + 1))) else None)
               [ELit (BasicLit kind (if kind = STRING then quote (xs ! (3 * i + 2))
                                     else xs ! (3 * i + 2)))])
     \<and> (Lparen ?d \<noteq> 0 \<longleftrightarrow> 1 < length (Specs ?d))
     \<and> (grouped ?d \<longleftrightarrow> length (Specs ?d) \<noteq> 1)"
    by (auto simp: grouped_def const_spec_def)
  with d show ?thesis by blast
qed

theorem constDecl_specs_witness:
  "length [''A'', ''string'', ''a'', ''B'', [], ''b''] mod 3 = 0
   \<and> constDecl (\<lambda>s. [CHR 0x22] @ s @ [CHR 0x22]) STRING [''A'', ''string'', ''a'', ''B'', [], ''b'']
     = Inr (GenDecl CONST_token 1
         [ValueSpec [Ident ''A''] (Some (Ident ''string'')) [ELit (BasicLit STRING [CHR 0x22, CHR ''a'', CHR 0x22])],
          ValueSpec [Ident ''B''] None [ELit (BasicLit STRING [CHR 0x22, CHR ''b'', CHR 0x22])]])
   \<and> grouped (GenDecl CONST_token 1
         [ValueSpec [Ident ''A''] (Some (Ident ''string'')) [ELit (BasicLit STRING [CHR 0x22, CHR ''a'', CHR 0x22])],
          ValueSpec [Ident ''B''] None [ELit (BasicLit STRING [CHR 0x22, CHR ''b'', CHR 0x22])]])
   \<and> length [''N'', [], ''42''] mod 3 = 0
   \<and> constDecl (\<lambda>s. [CHR 0x22] @ s @ [CHR 0x22]) INT_token [''N'', [], ''42'']
     = Inr (GenDecl CONST_token 0 [ValueSpec [Ident ''N''] None [ELit (BasicLit INT_token ''42'')]])
   \<and> \<not> grouped (GenDecl CONST_token 0 [ValueSpec [Ident ''N''] None [ELit (BasicLit INT_token ''42'')]])"
proof -
  let ?q = "\<lambda>s. [CHR 0x22] @ s @ [CHR 0x22]"
  let ?d2 = "GenDecl CONST_token 1
         [ValueSpec [Ident ''A''] (Some (Ident ''string'')) [ELit (BasicLit STRING [CHR 0x22, CHR ''a'', CHR 0x22])],
          ValueSpec [Ident ''B''] None [ELit (BasicLit STRING [CHR 0x22, CHR ''b'', CHR 0x22])]]"
  let ?d1 = "GenDecl CONST_token 0 [ValueSpec [Ident ''N''] None [ELit (BasicLit INT_token ''42'')]]"
  have m2: "length [''A'', ''string'', ''a'', ''B'', [], ''b''] mod 3 = 0" by simp
  have m1: "length [''N'', [], ''42''] mod 3 = 0" by simp
  have e2: "constDecl ?q STRING [''A'', ''string'', ''a'', ''B'', [], ''b''] = Inr ?d2"
    by (simp add: constDecl_def const_spec_def)
  have e1: "constDecl ?q INT_token [''N'', [], ''42''] = Inr ?d1"
    by (simp add: constDecl_def const_spec_def)
  from constDecl_specs [OF m2, of ?q STRING] e2 have g2: "grouped ?d2" by simp
  from constDecl_specs [OF m1, of ?q INT_token] e1 have g1: "\<not> grouped ?d1" by simp
  from m1 m2 e1 e2 g1 g2 show ?thesis by simp
qed

text \<open>
  The claim as stated (grouped exactly when there is more than one spec) fails for the
  empty argument list: the declaration has no spec, and the printer renders a declaration
  without specs as an empty group.
\<close>

theorem constDecl_no_spec_grouped:
  "constDecl (\<lambda>s. [CHR 0x22] @ s @ [CHR 0x22]) STRING [] = Inr (GenDecl CONST_token 0 [])
   \<and> grouped (GenDecl CONST_token 0 [])
   \<and> \<not> 1 < length (Specs (GenDecl CONST_token 0 []))"
  by (simp add: constDecl_def grouped_def)

section \<open>Properties of parseBlock\<close>

text \<open>
  Claim C3, as the code has it: when the file parser rejects the wrapped text,
  \<open>parseBlock\<close> returns the parser's error as it is, so the text of the error is the
  parser's diagnostic and nothing is added to it.
\<close>

theorem parseBlock_parse_failure:
  "parseFile (block_source s) = Inl d \<Longrightarrow>
     parseBlock parseFile s = Inl (ParserError d) \<and> Error quote (ParserError d) = d"
  by (simp add: parseBlock_def)

theorem parseBlock_parse_failure_witness:
  "(\<lambda>src. Inl ''3:1: expected statement, found ')' (and 1 more errors)'') (block_source '')'') = (Inl ''3:1: expected statement, found ')' (and 1 more errors)'' :: string + decl list)
   \<and> parseBlock (\<lambda>src. Inl ''3:1: expected statement, found ')' (and 1 more errors)'') '')'' = Inl (ParserError ''3:1: expected statement, found ')' (and 1 more errors)'')
   \<and> Error (\<lambda>s. s) (ParserError ''3:1: expected statement, found ')' (and 1 more errors)'') = ''3:1: expected statement, found ')' (and 1 more errors)''"
  using parseBlock_parse_failure [of "\<lambda>src. Inl ''3:1: expected statement, found ')' (and 1 more errors)''" "'')''"
      "''3:1: expected statement, found ')' (and 1 more errors)''" "\<lambda>s. s"]
  by simp

text \<open>
  The claim as stated (the error embeds the full wrapped text) fails: for the body
  \<open>)\<close> and a parser that answers with a diagnostic of the kind go/parser gives, the
  text of the returned error does not contain the wrapped text.
\<close>

theorem parseBlock_error_without_source:
  "parseBlock (\<lambda>src. Inl ''3:1: expected statement, found ')' (and 1 more errors)'') '')''
     = Inl (ParserError ''3:1: expected statement, found ')' (and 1 more errors)'')
   \<and> \<not> sublist (block_source '')'') (Error (\<lambda>s. s) (ParserError ''3:1: expected statement, found ')' (and 1 more errors)''))"
  by (simp add: parseBlock_def block_source_def sublist_Cons_right prefix_Cons)

lemma parseBlock_no_function:
  "parseFile (block_source s) = Inr decls \<Longrightarrow> first_func decls = None \<Longrightarrow>
     parseBlock parseFile s = Inl (NoFunctionFound (block_source s))
     \<and> Error quote (NoFunctionFound (block_source s))
         = ''parse error: no function found in '' @ quote (block_source s)"
  by (simp add: parseBlock_def)

section \<open>Properties of Decl\<close>

lemma Decl_unset_name_or_body:
  "(name fn = [] \<longrightarrow> Decl parseExpr parseFile fn = Inl FunctionNameUnset)
   \<and> (name fn \<noteq> [] \<and> body fn = [] \<longrightarrow> Decl parseExpr parseFile fn = Inl FunctionBodyUnset)
   \<and> Error quote FunctionNameUnset = ''function name unset''"
  by (simp add: Decl_def)

text \<open>
  Claim C2 (an empty name fails with "function name unset", an empty body with "function
  body unset"). The name part holds, and a builder with a name and no body gets the
  body-unset error and no declaration. The text of that error is not as claimed: the
  format of line 187 has the verb \<open>%s\<close> and no argument, so for the builder
  \<open>Func("F")\<close> the text is \<open>function body for %!s(MISSING) unset\<close>, which is
  neither \<open>function body unset\<close> nor names the function.
\<close>

theorem Decl_body_unset_text:
  "Decl parseExpr parseFile (Func ''F'') = Inl FunctionBodyUnset
   \<and> Error quote FunctionBodyUnset = ''function body for %!s(MISSING) unset''
   \<and> Error quote FunctionBodyUnset \<noteq> ''function body unset''
   \<and> Error quote FunctionBodyUnset \<noteq> ''function body for F unset''"
  by (simp add: Decl_def Func_def)

lemma fl_empty_first: "as \<noteq> [] \<Longrightarrow> hd as = [] \<Longrightarrow> fl parseExpr err as = fl parseExpr err []"
  by (simp add: fl_def)

lemma fl_Nil: "fl parseExpr err [] = (None, err)"
  by (simp add: fl_def)

lemma Decl_Params_no_args:
  "args fn = [] \<Longrightarrow> Decl parseExpr parseFile fn = Inr d \<Longrightarrow> Params (Func_Type d) = None"
  by (auto simp: Decl_def fl_Nil Let_def split: if_splits prod.splits option.splits sum.splits)

lemma Decl_Results_no_returns:
  "returns fn = [] \<Longrightarrow> Decl parseExpr parseFile fn = Inr d \<Longrightarrow> Results (Func_Type d) = None"
  by (auto simp: Decl_def fl_Nil Let_def split: if_splits prod.splits option.splits sum.splits)

lemma Decl_args_empty_first:
  "args fn \<noteq> [] \<Longrightarrow> hd (args fn) = [] \<Longrightarrow>
     Decl parseExpr parseFile fn = Decl parseExpr parseFile (fn\<lparr>args := []\<rparr>)"
  by (simp add: Decl_def fl_empty_first split: prod.split option.split sum.split)

lemma Decl_returns_empty_first:
  "returns fn \<noteq> [] \<Longrightarrow> hd (returns fn) = [] \<Longrightarrow>
     Decl parseExpr parseFile fn = Decl parseExpr parseFile (fn\<lparr>returns := []\<rparr>)"
  by (simp add: Decl_def fl_empty_first split: prod.split option.split sum.split)

text \<open>
  Claim C9: when the first argument descriptor is the empty string, \<open>Decl\<close> behaves as
  if there were no argument descriptors at all, whatever the later descriptors are, and
  a declaration it returns has no parameter list; the same for the return descriptors
  and the result list.
\<close>

theorem Decl_skips_group_with_empty_first:
  "(args fn \<noteq> [] \<and> hd (args fn) = [] \<longrightarrow>
      Decl parseExpr parseFile fn = Decl parseExpr parseFile (fn\<lparr>args := []\<rparr>)
      \<and> (\<forall>d. Decl parseExpr parseFile fn = Inr d \<longrightarrow> Params (Func_Type d) = None))
   \<and> (returns fn \<noteq> [] \<and> hd (returns fn) = [] \<longrightarrow>
      Decl parseExpr parseFile fn = Decl parseExpr parseFile (fn\<lparr>returns := []\<rparr>)
      \<and> (\<forall>d. Decl parseExpr parseFile fn = Inr d \<longrightarrow> Results (Func_Type d) = None))"
proof (intro conjI impI allI)
  assume a: "args fn \<noteq> [] \<and> hd (args fn) = []"
  then show e: "Decl parseExpr parseFile fn = Decl parseExpr parseFile (fn\<lparr>args := []\<rparr>)"
    by (simp add: Decl_args_empty_first)
  fix d assume "Decl parseExpr parseFile fn = Inr d"
  with e have "Decl parseExpr parseFile (fn\<lparr>args := []\<rparr>) = Inr d" by simp
  then show "Params (Func_Type d) = None"
    by (rule Decl_Params_no_args [rotated]) simp
next
  assume a: "returns fn \<noteq> [] \<and> hd (returns fn) = []"
  then show e: "Decl parseExpr parseFile fn = Decl parseExpr parseFile (fn\<lparr>returns := []\<rparr>)"
    by (simp add: Decl_returns_empty_first)
  fix d assume "Decl parseExpr parseFile fn = Inr d"
  with e have "Decl parseExpr parseFile (fn\<lparr>returns := []\<rparr>) = Inr d" by simp
  then show "Results (Func_Type d) = None"
    by (rule Decl_Results_no_returns [rotated]) simp
qed

theorem Decl_skips_group_with_empty_first_witness:
  "Decl example_parseExpr example_parseFile
       (Body_set ''return'' (Returns [[], ''int''] (Args [[], ''%%''] (Func ''F''))))
     = Inr (FuncDecl None None (Ident ''F'') (FuncType None None) (Some (BlockStmt [ReturnStmt []])))
   \<and> Decl example_parseExpr example_parseFile
       (Body_set ''return'' (Returns [[], ''int''] (Args [[], ''%%''] (Func ''F''))))
     = Decl example_parseExpr example_parseFile
       (Body_set ''return'' (Returns [[], ''int''] (Args [] (Func ''F''))))
   \<and> FieldList example_parseExpr [''%%''] = Inl (CouldNotParseType ''%%'' ''1:1: expected operand'')"
proof -
  let ?fn = "Body_set ''return'' (Returns [[], ''int''] (Args [[], ''%%''] (Func ''F'')))"
  have h: "args ?fn \<noteq> [] \<and> hd (args ?fn) = []"
    by (simp add: Body_set_def Returns_def Args_def Func_def)
  have r: "Decl example_parseExpr example_parseFile ?fn
     = Inr (FuncDecl None None (Ident ''F'') (FuncType None None) (Some (BlockStmt [ReturnStmt []])))"
    by (simp add: Decl_def Body_set_def Returns_def Args_def Func_def fl_def parseBlock_def
        example_parseFile_def)
  have u: "?fn\<lparr>args := []\<rparr> = Body_set ''return'' (Returns [[], ''int''] (Args [] (Func ''F'')))"
    by (simp add: Body_set_def Returns_def Args_def Func_def)
  have f: "FieldList example_parseExpr [''%%''] = Inl (CouldNotParseType ''%%'' ''1:1: expected operand'')"
    by (simp add: FieldList_def example_parseExpr_def numeral_2_eq_2)
  from Decl_skips_group_with_empty_first [of ?fn example_parseExpr example_parseFile] h
  have "Decl example_parseExpr example_parseFile ?fn
     = Decl example_parseExpr example_parseFile (?fn\<lparr>args := []\<rparr>)"
    by blast
  with r u f show ?thesis by simp
qed

section \<open>Properties of TagKey\<close>

text \<open>
  Claim C1 (TagValue returns the value registered under the key, and empty text when the
  field has no tag). The code does neither: on the field tagged \<open>xml:"a"\<close> it answers
  the empty string for the key \<open>xml\<close>, whatever the tag lookup would give, and on a
  field with no tag it dereferences the nil tag instead of returning empty text.
\<close>

theorem TagKey_inverted_check:
  "TagKey get (Field [Ident ''A''] (Some (EIdent (Ident ''int''))) (Some (BasicLit STRING ''xml:\"a\"''))) ''xml''
     = Inr []
   \<and> TagKey get (Field [Ident ''A''] (Some (EIdent (Ident ''int''))) None) ''xml''
     = Inl NilPointerDereference"
  by (simp add: TagKey_def)

text \<open>
  Claim C10: for every field whose tag is present and every key, \<open>TagKey\<close> returns the
  empty string; the result is the same for every tag content and every lookup function,
  so the tag is not consulted.
\<close>

theorem TagKey_present_tag_empty:
  "Tag field = Some t \<Longrightarrow> TagKey get field key = Inr []"
  by (simp add: TagKey_def)

theorem TagKey_present_tag_empty_witness:
  "Tag (Field [] None (Some (BasicLit STRING ''json:\"n\"''))) = Some (BasicLit STRING ''json:\"n\"'')
   \<and> TagKey (\<lambda>tag key. ''n'') (Field [] None (Some (BasicLit STRING ''json:\"n\"''))) ''json'' = Inr []"
  using TagKey_present_tag_empty [of "Field [] None (Some (BasicLit STRING ''json:\"n\"''))"
      "BasicLit STRING ''json:\"n\"''" "\<lambda>tag key. ''n''" "''json''"]
  by simp

end
